theory Spec2Isabelle
  imports Main "HOL-Library.Signed_Division" "HOL-Library.Multiset" "HOL-Library.AList"
    "HOL-Library.Sublist"
begin

section \<open>The wait-free MPSC message queue\<close>

text \<open>
  Source: \<^verbatim>\<open>TTauri/wfree_mpsc_message_queue.hpp\<close>. The class template
  \<^verbatim>\<open>wfree_mpsc_message_queue<T, N>\<close> holds a \<^verbatim>\<open>std::array\<close> of \<^verbatim>\<open>N\<close> messages, each a value
  with an atomic state, and two atomic \<^verbatim>\<open>int64_t\<close> counters.
\<close>

subsection \<open>Data\<close>

datatype message_state = Empty | Copying | Ready

record 'a message_type =
  value_msg :: 'a
  state_msg :: message_state

type_synonym index_type = int

record 'a wfree_mpsc_message_queue =
  messages :: "'a message_type list"
  head :: index_type
  tail :: index_type

datatype error = OutOfBounds | SignedOverflow | AssertionFailed | InvalidObject | NoReturnValue

text \<open>
  \<^verbatim>\<open>index_type\<close> is \<^verbatim>\<open>int64_t\<close>. Values are kept as integers; what the 64 bits do is
  written out: an atomic \<^verbatim>\<open>fetch_add\<close> wraps in two's complement, an ordinary signed
  subtraction that leaves the range is undefined behaviour (an error here).
\<close>

definition int64 :: "int \<Rightarrow> bool" where
  "int64 x \<longleftrightarrow> - (2 ^ 63) \<le> x \<and> x < 2 ^ 63"

definition int64_wrap :: "int \<Rightarrow> index_type" where
  "int64_wrap x = (x + 2 ^ 63) mod 2 ^ 64 - 2 ^ 63"

definition int64_sub :: "index_type \<Rightarrow> index_type \<Rightarrow> error + index_type" where
  "int64_sub a b = (if int64 (a - b) then Inr (a - b) else Inl SignedOverflow)"

text \<open>\<^verbatim>\<open>std::atomic<int64_t>::fetch_add\<close>: the value before, and the value stored.\<close>

definition fetch_add :: "index_type \<Rightarrow> int \<Rightarrow> index_type \<times> index_type" where
  "fetch_add x d = (x, int64_wrap (x + d))"

text \<open>
  \<^verbatim>\<open>capacity = N\<close> is the length of the array, \<^verbatim>\<open>slack = 16\<close>. The \<^verbatim>\<open>static_assert\<close>
  rejects every instance with \<^verbatim>\<open>capacity <= slack * 2\<close>.
\<close>

definition capacity :: "'a wfree_mpsc_message_queue \<Rightarrow> index_type" where
  "capacity q = int (length (messages q))"

definition slack :: index_type where
  "slack = 16"

definition static_assert_capacity :: "'a wfree_mpsc_message_queue \<Rightarrow> bool" where
  "static_assert_capacity q \<longleftrightarrow> capacity q > slack * 2"


text \<open>
  The defaulted constructor: every state \<^verbatim>\<open>Empty\<close>, both counters 0. The values are
  default-initialised; \<open>v\<close> stands for what that leaves in a slot.
\<close>

definition new_queue :: "nat \<Rightarrow> 'a \<Rightarrow> 'a wfree_mpsc_message_queue" where
  "new_queue n v =
     \<lparr>messages = replicate n \<lparr>value_msg = v, state_msg = Empty\<rparr>, head = 0, tail = 0\<rparr>"

subsection \<open>Advisory size checks\<close>

definition size_queue :: "'a wfree_mpsc_message_queue \<Rightarrow> error + index_type" where
  "size_queue q = int64_sub (head q) (tail q)"

definition empty_queue :: "'a wfree_mpsc_message_queue \<Rightarrow> error + bool" where
  "empty_queue q = (case size_queue q of Inl e \<Rightarrow> Inl e | Inr n \<Rightarrow> Inr (n = 0))"

definition full :: "'a wfree_mpsc_message_queue \<Rightarrow> error + bool" where
  "full q = (case size_queue q of Inl e \<Rightarrow> Inl e | Inr n \<Rightarrow> Inr (n \<ge> capacity q - slack))"

subsection \<open>Slots\<close>

text \<open>
  \<^verbatim>\<open>messages[index % capacity]\<close>: the remainder of C++ takes the sign of \<^verbatim>\<open>index\<close>
  (\<open>smod\<close>), and \<^verbatim>\<open>std::array::operator[]\<close> outside \<^verbatim>\<open>0 .. N-1\<close> is undefined.
\<close>

definition slot :: "'a wfree_mpsc_message_queue \<Rightarrow> index_type \<Rightarrow> error + nat" where
  "slot q index =
     (let i = index smod capacity q
      in if 0 \<le> i \<and> i < capacity q then Inr (nat i) else Inl OutOfBounds)"

definition store_state ::
  "'a wfree_mpsc_message_queue \<Rightarrow> nat \<Rightarrow> message_state \<Rightarrow> 'a wfree_mpsc_message_queue" where
  "store_state q i s = q\<lparr>messages := (messages q)[i := (messages q ! i)\<lparr>state_msg := s\<rparr>]\<rparr>"

definition load_state :: "'a wfree_mpsc_message_queue \<Rightarrow> nat \<Rightarrow> message_state" where
  "load_state q i = state_msg (messages q ! i)"

text \<open>\<^verbatim>\<open>operator[]\<close>: the value of the slot, and an assignment through the reference.\<close>

definition subscript :: "'a wfree_mpsc_message_queue \<Rightarrow> index_type \<Rightarrow> error + 'a" where
  "subscript q index =
     (case slot q index of Inl e \<Rightarrow> Inl e | Inr i \<Rightarrow> Inr (value_msg (messages q ! i)))"

definition subscript_assign ::
  "'a wfree_mpsc_message_queue \<Rightarrow> index_type \<Rightarrow> 'a \<Rightarrow> error + 'a wfree_mpsc_message_queue" where
  "subscript_assign q index v =
     (case slot q index of
        Inl e \<Rightarrow> Inl e
      | Inr i \<Rightarrow> Inr (q\<lparr>messages := (messages q)[i := (messages q ! i)\<lparr>value_msg := v\<rparr>]\<rparr>))"

subsection \<open>The helpers of atomic.hpp\<close>

text \<open>
  Modelled from the spec: \<^verbatim>\<open>atomic.hpp\<close>, which declares \<^verbatim>\<open>transition\<close> and
  \<^verbatim>\<open>wait_for_transition\<close>, is not among the sources. The spec's invariant is that a slot
  only goes Empty, Copying, Ready, Empty, and that \<^verbatim>\<open>read\<close> spins until Ready; the call
  \<^verbatim>\<open>transition(message.state, Empty, Copying)\<close> names the state it leaves, and the comment
  of \<^verbatim>\<open>write_start\<close> promises wait-freedom only when the queue is not full. So
  \<^verbatim>\<open>transition(state, from, to)\<close> is a compare-and-exchange loop: it replaces \<open>from\<close> by
  \<open>to\<close> and returns, and tries again while the state is something else;
  \<^verbatim>\<open>wait_for_transition(state, to)\<close> loads until it reads \<open>to\<close>.

  One attempt is one atomic step. The functions below run the loop with nobody else
  changing the state between attempts: the number is how many attempts are made, and
  \<open>None\<close> says the loop is still spinning after them.
\<close>

definition compare_exchange ::
  "message_state \<Rightarrow> message_state \<Rightarrow> message_state \<Rightarrow> message_state option" where
  "compare_exchange s from to = (if s = from then Some to else None)"

fun transition ::
  "nat \<Rightarrow> message_state \<Rightarrow> message_state \<Rightarrow> message_state \<Rightarrow> message_state option" where
  "transition 0 s from to = None"
| "transition (Suc n) s from to =
     (case compare_exchange s from to of Some s' \<Rightarrow> Some s' | None \<Rightarrow> transition n s from to)"

fun wait_for_transition :: "nat \<Rightarrow> message_state \<Rightarrow> message_state \<Rightarrow> unit option" where
  "wait_for_transition 0 s to = None"
| "wait_for_transition (Suc n) s to = (if s = to then Some () else wait_for_transition n s to)"

subsection \<open>Queue operations\<close>

text \<open>
  The first argument of \<open>write_start\<close> and \<open>read_start\<close> bounds the attempts of the
  helper's loop; the result is \<open>None\<close> while the call has not returned.
\<close>

definition write_start ::
  "nat \<Rightarrow> 'a wfree_mpsc_message_queue \<Rightarrow>
     (error + index_type \<times> 'a wfree_mpsc_message_queue) option" where
  "write_start fuel q =
     (let (index, h) = fetch_add (head q) 1;
          q1 = q\<lparr>head := h\<rparr>
      in case slot q1 index of
           Inl e \<Rightarrow> Some (Inl e)
         | Inr i \<Rightarrow>
             (case transition fuel (load_state q1 i) Empty Copying of
                None \<Rightarrow> None
              | Some s \<Rightarrow> Some (Inr (index, store_state q1 i s))))"

definition write_finish ::
  "'a wfree_mpsc_message_queue \<Rightarrow> index_type \<Rightarrow> error + 'a wfree_mpsc_message_queue" where
  "write_finish q index =
     (case slot q index of Inl e \<Rightarrow> Inl e | Inr i \<Rightarrow> Inr (store_state q i Ready))"

definition read_start ::
  "nat \<Rightarrow> 'a wfree_mpsc_message_queue \<Rightarrow>
     (error + index_type \<times> 'a wfree_mpsc_message_queue) option" where
  "read_start fuel q =
     (let (index, t) = fetch_add (tail q) 1;
          q1 = q\<lparr>tail := t\<rparr>
      in case slot q1 index of
           Inl e \<Rightarrow> Some (Inl e)
         | Inr i \<Rightarrow>
             (case wait_for_transition fuel (load_state q1 i) Ready of
                None \<Rightarrow> None
              | Some _ \<Rightarrow> Some (Inr (index, q1))))"

definition read_finish ::
  "'a wfree_mpsc_message_queue \<Rightarrow> index_type \<Rightarrow> error + 'a wfree_mpsc_message_queue" where
  "read_finish q index =
     (case slot q index of Inl e \<Rightarrow> Inl e | Inr i \<Rightarrow> Inr (store_state q i Empty))"

subsection \<open>Complete writes and reads\<close>

text \<open>
  \<^verbatim>\<open>*queue.write() = v;\<close> reserves a slot, assigns through the scoped operation and
  finishes when the operation is destroyed; \<^verbatim>\<open>v = *queue.read();\<close> likewise.
\<close>

definition write_message ::
  "nat \<Rightarrow> 'a wfree_mpsc_message_queue \<Rightarrow> 'a \<Rightarrow> (error + 'a wfree_mpsc_message_queue) option" where
  "write_message fuel q v =
     (case write_start fuel q of
        None \<Rightarrow> None
      | Some (Inl e) \<Rightarrow> Some (Inl e)
      | Some (Inr (index, q1)) \<Rightarrow>
          (case subscript_assign q1 index v of
             Inl e \<Rightarrow> Some (Inl e)
           | Inr q2 \<Rightarrow> Some (write_finish q2 index)))"

definition read_message ::
  "nat \<Rightarrow> 'a wfree_mpsc_message_queue \<Rightarrow> (error + 'a \<times> 'a wfree_mpsc_message_queue) option" where
  "read_message fuel q =
     (case read_start fuel q of
        None \<Rightarrow> None
      | Some (Inl e) \<Rightarrow> Some (Inl e)
      | Some (Inr (index, q1)) \<Rightarrow>
          (case subscript q1 index of
             Inl e \<Rightarrow> Some (Inl e)
           | Inr v \<Rightarrow>
               (case read_finish q1 index of
                  Inl e \<Rightarrow> Some (Inl e)
                | Inr q2 \<Rightarrow> Some (Inr (v, q2)))))"

text \<open>
  A client that keeps the documented preconditions: \<^verbatim>\<open>write\<close> only when not
  \<^verbatim>\<open>full()\<close>, \<^verbatim>\<open>read\<close> only when not \<^verbatim>\<open>empty()\<close>. It stops at the first call whose
  precondition does not hold.
\<close>

datatype 'a request = Write_request 'a | Read_request

datatype 'a outcome = Finished "'a list" "'a wfree_mpsc_message_queue"
  | Precondition_violated | Failed error | Spinning

fun client :: "nat \<Rightarrow> 'a request list \<Rightarrow> 'a list \<Rightarrow> 'a wfree_mpsc_message_queue \<Rightarrow> 'a outcome" where
  "client fuel [] out q = Finished out q"
| "client fuel (Write_request v # rs) out q =
     (case full q of
        Inl e \<Rightarrow> Failed e
      | Inr True \<Rightarrow> Precondition_violated
      | Inr False \<Rightarrow>
          (case write_message fuel q v of
             None \<Rightarrow> Spinning
           | Some (Inl e) \<Rightarrow> Failed e
           | Some (Inr q') \<Rightarrow> client fuel rs out q'))"
| "client fuel (Read_request # rs) out q =
     (case empty_queue q of
        Inl e \<Rightarrow> Failed e
      | Inr True \<Rightarrow> Precondition_violated
      | Inr False \<Rightarrow>
          (case read_message fuel q of
             None \<Rightarrow> Spinning
           | Some (Inl e) \<Rightarrow> Failed e
           | Some (Inr (v, q')) \<Rightarrow> client fuel rs (out @ [v]) q'))"

section \<open>Scoped operations\<close>

text \<open>
  \<^verbatim>\<open>wfree_mpsc_message_queue_operation<T, N, WriteOperation>\<close>: a pointer to the queue
  (null in a default-constructed or moved-from object) and an index. Queues and
  operation objects live at addresses, since the move operations compare and change
  objects in place. All operation objects of one store are of one instance of the
  template; its parameter \<^verbatim>\<open>WriteOperation\<close> is the first argument of the functions that
  depend on it.

  The lists \<open>handed_out\<close> and \<open>finished\<close> are history, not program state: the
  \<^verbatim>\<open>(parent, index)\<close> pairs given to a two-argument constructor, and those passed to
  \<^verbatim>\<open>write_finish\<close> or \<^verbatim>\<open>read_finish\<close> by a destructor.
\<close>

type_synonym queue_ptr = nat
type_synonym operation_ptr = nat

record wfree_mpsc_message_queue_operation =
  parent :: "queue_ptr option"
  index :: index_type

record 'a memory =
  queues :: "(queue_ptr \<times> 'a wfree_mpsc_message_queue) list"
  operations :: "(operation_ptr \<times> wfree_mpsc_message_queue_operation) list"
  handed_out :: "(queue_ptr \<times> index_type) list"
  finished :: "(queue_ptr \<times> index_type) list"

definition construct_default :: "operation_ptr \<Rightarrow> 'a memory \<Rightarrow> 'a memory" where
  "construct_default this m =
     m\<lparr>operations := AList.update this \<lparr>parent = None, index = 0\<rparr> (operations m)\<rparr>"

definition construct ::
  "operation_ptr \<Rightarrow> queue_ptr \<Rightarrow> index_type \<Rightarrow> 'a memory \<Rightarrow> 'a memory" where
  "construct this p i m =
     m\<lparr>operations := AList.update this \<lparr>parent = Some p, index = i\<rparr> (operations m),
       handed_out := handed_out m @ [(p, i)]\<rparr>"

definition move_construct ::
  "operation_ptr \<Rightarrow> operation_ptr \<Rightarrow> 'a memory \<Rightarrow> error + 'a memory" where
  "move_construct this other m =
     (case map_of (operations m) other of
        None \<Rightarrow> Inl InvalidObject
      | Some other_obj \<Rightarrow>
          (let m1 = m\<lparr>operations :=
                 AList.update this
                   \<lparr>parent = parent other_obj, index = index other_obj\<rparr> (operations m)\<rparr>
           in if this = other then Inr m1
              else Inr (m1\<lparr>operations :=
                 AList.update other (other_obj\<lparr>parent := None\<rparr>) (operations m1)\<rparr>)))"

definition destructor :: "bool \<Rightarrow> operation_ptr \<Rightarrow> 'a memory \<Rightarrow> error + 'a memory" where
  "destructor WriteOperation this m =
     (case map_of (operations m) this of
        None \<Rightarrow> Inl InvalidObject
      | Some obj \<Rightarrow>
          (case parent obj of
             None \<Rightarrow> Inr (m\<lparr>operations := AList.delete this (operations m)\<rparr>)
           | Some p \<Rightarrow>
               (case map_of (queues m) p of
                  None \<Rightarrow> Inl InvalidObject
                | Some q \<Rightarrow>
                    (case (if WriteOperation then write_finish q (index obj)
                           else read_finish q (index obj)) of
                       Inl e \<Rightarrow> Inl e
                     | Inr q' \<Rightarrow>
                         Inr (m\<lparr>queues := AList.update p q' (queues m),
                                operations := AList.delete this (operations m),
                                finished := finished m @ [(p, index obj)]\<rparr>)))))"

text \<open>
  The move assignment operator is declared to return a reference to the object. When
  the two objects are the same it executes \<^verbatim>\<open>return;\<close>, without a value; otherwise it swaps
  the two members and reaches the end of its body, where there is no \<^verbatim>\<open>return *this\<close>.
  Neither path yields the reference: the result is the store the body leaves and the
  error in place of the reference.
\<close>

definition move_assign ::
  "operation_ptr \<Rightarrow> operation_ptr \<Rightarrow> 'a memory \<Rightarrow> 'a memory \<times> (error + operation_ptr)" where
  "move_assign this other m =
     (case (map_of (operations m) this, map_of (operations m) other) of
        (Some this_obj, Some other_obj) \<Rightarrow>
          if this = other then (m, Inl NoReturnValue)
          else (m\<lparr>operations :=
                  AList.update other this_obj
                    (AList.update this other_obj (operations m))\<rparr>, Inl NoReturnValue)
      | _ \<Rightarrow> (m, Inl InvalidObject))"

text \<open>
  \<^verbatim>\<open>operator*\<close>: the reference it returns is the queue and the slot whose value it
  names. \<^verbatim>\<open>required_assert\<close> (of \<^verbatim>\<open>required.hpp\<close>, not among the sources) stops the
  program when its condition is false.
\<close>

definition dereference :: "operation_ptr \<Rightarrow> 'a memory \<Rightarrow> error + queue_ptr \<times> nat" where
  "dereference this m =
     (case map_of (operations m) this of
        None \<Rightarrow> Inl InvalidObject
      | Some obj \<Rightarrow>
          (case parent obj of
             None \<Rightarrow> Inl AssertionFailed
           | Some p \<Rightarrow>
               (case map_of (queues m) p of
                  None \<Rightarrow> Inl InvalidObject
                | Some q \<Rightarrow>
                    (case slot q (index obj) of
                       Inl e \<Rightarrow> Inl e
                     | Inr i \<Rightarrow> Inr (p, i)))))"

text \<open>
  \<^verbatim>\<open>write()\<close> and \<^verbatim>\<open>read()\<close>: \<^verbatim>\<open>return {this, write_start()};\<close> builds the returned
  operation in place at the caller's address.
\<close>

definition write_or_read ::
  "bool \<Rightarrow> nat \<Rightarrow> queue_ptr \<Rightarrow> operation_ptr \<Rightarrow> 'a memory \<Rightarrow> (error + 'a memory) option" where
  "write_or_read WriteOperation fuel p result m =
     (case map_of (queues m) p of
        None \<Rightarrow> Some (Inl InvalidObject)
      | Some q \<Rightarrow>
          (case (if WriteOperation then write_start fuel q else read_start fuel q) of
             None \<Rightarrow> None
           | Some (Inl e) \<Rightarrow> Some (Inl e)
           | Some (Inr (i, q')) \<Rightarrow>
               Some (Inr (construct result p i (m\<lparr>queues := AList.update p q' (queues m)\<rparr>)))))"

text \<open>
  Programs over operation objects: each statement names the objects it uses by
  address. A declaration needs an address that holds no object.
\<close>

datatype statement =
    Declare_default operation_ptr
  | Declare_from_queue operation_ptr queue_ptr nat
  | Declare_moved operation_ptr operation_ptr
  | Assign_moved operation_ptr operation_ptr
  | End_of_lifetime operation_ptr

definition fresh :: "operation_ptr \<Rightarrow> 'a memory \<Rightarrow> bool" where
  "fresh a m \<longleftrightarrow> map_of (operations m) a = None"

fun statement_exec :: "bool \<Rightarrow> statement \<Rightarrow> 'a memory \<Rightarrow> (error + 'a memory) option" where
  "statement_exec w (Declare_default a) m =
     (if fresh a m then Some (Inr (construct_default a m)) else Some (Inl InvalidObject))"
| "statement_exec w (Declare_from_queue a p fuel) m =
     (if fresh a m then write_or_read w fuel p a m else Some (Inl InvalidObject))"
| "statement_exec w (Declare_moved a b) m =
     (if fresh a m then Some (move_construct a b m) else Some (Inl InvalidObject))"
| "statement_exec w (Assign_moved a b) m =
     (case move_assign a b m of
        (m', Inl e) \<Rightarrow> Some (Inl e)
      | (m', Inr r) \<Rightarrow> Some (Inr m'))"
| "statement_exec w (End_of_lifetime a) m = Some (destructor w a m)"

fun program_exec :: "bool \<Rightarrow> statement list \<Rightarrow> 'a memory \<Rightarrow> (error + 'a memory) option" where
  "program_exec w [] m = Some (Inr m)"
| "program_exec w (c # cs) m =
     (case statement_exec w c m of
        None \<Rightarrow> None
      | Some (Inl e) \<Rightarrow> Some (Inl e)
      | Some (Inr m') \<Rightarrow> program_exec w cs m')"

text \<open>The finish calls that the live objects of a store still owe.\<close>

definition owed :: "wfree_mpsc_message_queue_operation \<Rightarrow> (queue_ptr \<times> index_type) multiset" where
  "owed obj = (case parent obj of None \<Rightarrow> {#} | Some p \<Rightarrow> {#(p, index obj)#})"

definition pending :: "'a memory \<Rightarrow> (queue_ptr \<times> index_type) multiset" where
  "pending m = (\<Sum>(a, obj) \<leftarrow> operations m. owed obj)"

definition owed_all ::
  "(operation_ptr \<times> wfree_mpsc_message_queue_operation) list \<Rightarrow>
     (queue_ptr \<times> index_type) multiset" where
  "owed_all xs = (\<Sum>(a, obj) \<leftarrow> xs. owed obj)"

text \<open>
  What was handed out is what was finished plus what the live objects still owe; no
  two objects share an address.
\<close>

definition balanced :: "'a memory \<Rightarrow> bool" where
  "balanced m \<longleftrightarrow> distinct (map fst (operations m))
     \<and> mset (handed_out m) = mset (finished m) + pending m"

text \<open>A store with the given queues and no operation object yet.\<close>

definition new_memory :: "(queue_ptr \<times> 'a wfree_mpsc_message_queue) list \<Rightarrow> 'a memory" where
  "new_memory qs = \<lparr>queues = qs, operations = [], handed_out = [], finished = []\<rparr>"

text \<open>Concrete stores and programs used below.\<close>

definition example_memory :: "nat memory" where
  "example_memory =
     \<lparr>queues = [(0, new_queue 33 0)],
      operations = [(0, \<lparr>parent = Some 0, index = 32\<rparr>), (1, \<lparr>parent = Some 0, index = -1\<rparr>),
                    (2, \<lparr>parent = None, index = 0\<rparr>)],
      handed_out = [(0, 32), (0, -1)], finished = []\<rparr>"

definition example_program :: "statement list" where
  "example_program =
     [Declare_from_queue 0 5 1, Declare_default 1, Declare_moved 2 0,
      End_of_lifetime 0, End_of_lifetime 2, End_of_lifetime 1]"

definition assigning_program :: "statement list" where
  "assigning_program =
     [Declare_from_queue 0 5 1, Declare_default 1, Assign_moved 1 0,
      End_of_lifetime 0, End_of_lifetime 1]"

section \<open>Threads\<close>

text \<open>
  Producers and the consumer run the queue operations concurrently. A step is one
  atomic access of one thread: a size check, the \<^verbatim>\<open>fetch_add\<close> on a counter, one
  successful compare-and-exchange of \<^verbatim>\<open>transition\<close>, the load of \<^verbatim>\<open>wait_for_transition\<close>
  that reads \<^verbatim>\<open>Ready\<close>, a store to a state, an assignment through the scoped operation.
  Attempts of the two loops that fail change nothing and are no steps. The atomics are
  taken as sequentially consistent: the \<^verbatim>\<open>memory_order\<close> arguments are not modelled.

  A producer is between calls (\<open>P_idle\<close>), has seen \<^verbatim>\<open>full()\<close> return false
  (\<open>P_checked\<close>), is inside \<^verbatim>\<open>write_start\<close> after the \<^verbatim>\<open>fetch_add\<close> (\<open>P_reserved\<close>), or
  holds the scoped write operation that \<^verbatim>\<open>write()\<close> returned (\<open>P_writing\<close>). A thread
  that keeps several write operations alive is as many producers.

  The consumer is one thread. It is between calls, has seen \<^verbatim>\<open>empty()\<close> return false,
  or is inside \<^verbatim>\<open>read_start\<close> after the \<^verbatim>\<open>fetch_add\<close>. The scoped read operations that
  \<^verbatim>\<open>read()\<close> returned to it and that are still alive are the list \<open>reading\<close>: the
  objects are movable, and the consumer may keep any number of them while it calls
  \<^verbatim>\<open>read()\<close> again. The destructor of one of them runs while the consumer is not
  inside \<^verbatim>\<open>read_start\<close>.

  A size check is one step: of the two loads of \<^verbatim>\<open>size()\<close>, the consumer's load of the
  tail reads a counter that only the consumer changes, so its check is the load of the
  head. The check and the \<^verbatim>\<open>fetch_add\<close> that follows it are two steps, and other threads
  may run between them.

  A \<open>discipline\<close> says what the callers keep to. With \<open>checks_full\<close> a producer calls
  \<^verbatim>\<open>write()\<close> only after \<^verbatim>\<open>full()\<close> returned false, with \<open>checks_empty\<close> the consumer
  calls \<^verbatim>\<open>read()\<close> only after \<^verbatim>\<open>empty()\<close> returned false; without them the call may come
  at any time, which covers every way and moment of checking. With \<open>reads_apart\<close> the
  consumer calls \<^verbatim>\<open>read()\<close> only when none of the read operations it holds is on the
  slot of the index that \<^verbatim>\<open>read_start\<close> will reserve.
\<close>

datatype producer_pc = P_idle | P_checked | P_reserved index_type | P_writing index_type

datatype consumer_pc = C_idle | C_checked | C_reserved index_type

record discipline =
  checks_full :: bool
  checks_empty :: bool
  reads_apart :: bool

record 'a system =
  queue :: "'a wfree_mpsc_message_queue"
  producer :: "nat \<Rightarrow> producer_pc"
  consumer :: consumer_pc
  reading :: "index_type list"
  fault :: "error option"




text \<open>
  The step of a given thread as a function: \<open>perform\<close> returns the state after the
  step, or nothing when the thread cannot take that step; \<open>run\<close> takes the steps of a
  schedule one after the other.
\<close>

datatype 'a action =
    Write_check nat
  | Write_fetch_add nat
  | Write_transition nat
  | Write_assign nat 'a
  | Write_finished nat
  | Read_check
  | Read_fetch_add
  | Read_ready
  | Read_finished index_type

fun perform :: "discipline \<Rightarrow> 'a action \<Rightarrow> 'a system \<Rightarrow> 'a system option" where
  "perform d (Write_check p) s =
     (if fault s = None \<and> producer s p = P_idle \<and> full (queue s) = Inr False
      then Some (s\<lparr>producer := (producer s)(p := P_checked)\<rparr>) else None)"
| "perform d (Write_fetch_add p) s =
     (if fault s = None
         \<and> (producer s p = P_checked \<or> (\<not> checks_full d \<and> producer s p = P_idle))
      then (let (i, h) = fetch_add (head (queue s)) 1
            in Some (s\<lparr>queue := (queue s)\<lparr>head := h\<rparr>,
                      producer := (producer s)(p := P_reserved i)\<rparr>))
      else None)"
| "perform d (Write_transition p) s =
     (case (fault s, producer s p) of
        (None, P_reserved i) \<Rightarrow>
          (case slot (queue s) i of
             Inl e \<Rightarrow> Some (s\<lparr>fault := Some e\<rparr>)
           | Inr k \<Rightarrow>
               (case compare_exchange (load_state (queue s) k) Empty Copying of
                  None \<Rightarrow> None
                | Some st \<Rightarrow>
                    Some (s\<lparr>queue := store_state (queue s) k st,
                            producer := (producer s)(p := P_writing i)\<rparr>)))
      | _ \<Rightarrow> None)"
| "perform d (Write_assign p v) s =
     (case (fault s, producer s p) of
        (None, P_writing i) \<Rightarrow>
          (case subscript_assign (queue s) i v of
             Inl e \<Rightarrow> None
           | Inr q' \<Rightarrow> Some (s\<lparr>queue := q'\<rparr>))
      | _ \<Rightarrow> None)"
| "perform d (Write_finished p) s =
     (case (fault s, producer s p) of
        (None, P_writing i) \<Rightarrow>
          (case write_finish (queue s) i of
             Inl e \<Rightarrow> None
           | Inr q' \<Rightarrow> Some (s\<lparr>queue := q', producer := (producer s)(p := P_idle)\<rparr>))
      | _ \<Rightarrow> None)"
| "perform d Read_check s =
     (if fault s = None \<and> consumer s = C_idle \<and> empty_queue (queue s) = Inr False
      then Some (s\<lparr>consumer := C_checked\<rparr>) else None)"
| "perform d Read_fetch_add s =
     (if fault s = None
         \<and> (consumer s = C_checked \<or> (\<not> checks_empty d \<and> consumer s = C_idle))
         \<and> (reads_apart d \<longrightarrow>
              (\<forall>j \<in> set (reading s). slot (queue s) j \<noteq> slot (queue s) (tail (queue s))))
      then (let (i, t) = fetch_add (tail (queue s)) 1
            in Some (s\<lparr>queue := (queue s)\<lparr>tail := t\<rparr>, consumer := C_reserved i\<rparr>))
      else None)"
| "perform d Read_ready s =
     (case (fault s, consumer s) of
        (None, C_reserved i) \<Rightarrow>
          (case slot (queue s) i of
             Inl e \<Rightarrow> Some (s\<lparr>fault := Some e\<rparr>)
           | Inr k \<Rightarrow>
               (case wait_for_transition 1 (load_state (queue s) k) Ready of
                  None \<Rightarrow> None
                | Some u \<Rightarrow> Some (s\<lparr>consumer := C_idle, reading := reading s @ [i]\<rparr>)))
      | _ \<Rightarrow> None)"
| "perform d (Read_finished i) s =
     (if fault s = None \<and> (consumer s = C_idle \<or> consumer s = C_checked)
         \<and> i \<in> set (reading s)
      then (case read_finish (queue s) i of
              Inl e \<Rightarrow> None
            | Inr q' \<Rightarrow> Some (s\<lparr>queue := q', reading := remove1 i (reading s)\<rparr>))
      else None)"

fun run :: "discipline \<Rightarrow> 'a action list \<Rightarrow> 'a system \<Rightarrow> 'a system option" where
  "run d [] s = Some s"
| "run d (a # as) s = (case perform d a s of None \<Rightarrow> None | Some s' \<Rightarrow> run d as s')"










subsection \<open>Invariants and example states of the threads\<close>








section \<open>The timer awaitable\<close>

text \<open>
  Source: \<^verbatim>\<open>awaitable_timer::await_suspend\<close> (hikogui, dispatch). The awaitable holds
  \<^verbatim>\<open>_deadline\<close> and \<^verbatim>\<open>_token\<close>; the callback it registers is the closure
  \<^verbatim>\<open>[handle]() { handle.resume(); }\<close>.
\<close>

type_synonym thread_id = nat

















section \<open>Starting a subsystem\<close>

text \<open>
  Source: \<^verbatim>\<open>os_settings::start_subsystem\<close> returns
  \<^verbatim>\<open>hi::start_subsystem(_started, false, subsystem_init, subsystem_deinit)\<close>.

  Modelled from the spec: \<^verbatim>\<open>hi::start_subsystem\<close> (\<^verbatim>\<open>subsystem.hpp\<close>) is not among the
  sources. After section 4.7 of the spec: the state is one of NotStarted, Starting,
  Running, Stopping, Stopped; \<^verbatim>\<open>start\<close> does a compare-and-swap from NotStarted to
  Starting; a thread that loses waits for Running; the winner runs \<^verbatim>\<open>init_fn\<close> and sets
  Running on success, or reverts to NotStarted and returns failure; \<^verbatim>\<open>start\<close> is
  idempotent once Running.

  \<open>init_fn k\<close> is the result of the execution of \<^verbatim>\<open>init_fn\<close> that follows \<open>k\<close> earlier
  ones; \<open>init_calls\<close> counts the executions.
\<close>

datatype subsystem_state = NotStarted | Starting | Running | Stopping | Stopped

datatype start_pc = Outside | Entered | Initializing | Waiting | Returned bool

record subsystem =
  state :: subsystem_state
  caller :: "thread_id \<Rightarrow> start_pc"
  init_calls :: nat




text \<open>How many of the executions of \<^verbatim>\<open>init_fn\<close> so far succeeded.\<close>

definition successes :: "(nat \<Rightarrow> bool) \<Rightarrow> subsystem \<Rightarrow> nat" where
  "successes init_fn s = length (filter init_fn [0..<init_calls s])"






section \<open>Properties\<close>

subsection \<open>Integers and slots\<close>

lemma int64_wrap_id: "int64 x \<Longrightarrow> int64_wrap x = x"
  by (simp add: int64_def int64_wrap_def)

lemma int64_int64_wrap: "int64 (int64_wrap x)"
  by (simp add: int64_def int64_wrap_def)

lemma slot_nonneg:
  "0 \<le> i \<Longrightarrow> 0 < capacity q \<Longrightarrow> slot q i = Inr (nat (i mod capacity q))"
  by (simp add: slot_def smod_int_alt_def sgn_if Let_def)

lemma slot_less: "slot q i = Inr k \<Longrightarrow> k < length (messages q)"
  by (auto simp: slot_def Let_def capacity_def split: if_splits)

subsection \<open>The size checks\<close>

text \<open>
  C4. \<^verbatim>\<open>size()\<close> returns head minus tail, \<^verbatim>\<open>empty()\<close> is true exactly when that is 0,
  \<^verbatim>\<open>full()\<close> exactly when it is at least capacity minus slack; slack is 16 and the
  \<^verbatim>\<open>static_assert\<close> is \<^verbatim>\<open>capacity > 2 * slack\<close>. The three checks are functions of the
  queue that return a value and no queue, so they modify nothing. The subtraction is
  a signed 64-bit one: the hypothesis says that it does not overflow, as is the case
  whenever neither counter is negative.
\<close>

theorem size_checks:
  assumes "int64 (head q - tail q)"
  shows "size_queue q = Inr (head q - tail q)
    \<and> empty_queue q = Inr (head q - tail q = 0)
    \<and> full q = Inr (head q - tail q \<ge> capacity q - slack)
    \<and> slack = 16
    \<and> (static_assert_capacity q \<longleftrightarrow> capacity q > 2 * slack)"
  using assms
  by (simp add: size_queue_def empty_queue_def full_def int64_sub_def slack_def
      static_assert_capacity_def)

theorem size_checks_witness:
  "size_queue (new_queue 33 (0::nat)) = Inr 0
    \<and> empty_queue (new_queue 33 (0::nat)) = Inr True
    \<and> full (new_queue 33 (0::nat)) = Inr False"
  using size_checks [of "new_queue 33 (0::nat)"]
  by (simp add: new_queue_def int64_def capacity_def slack_def)

subsection \<open>What the finish operations touch\<close>

lemma slot_aliases:
  "0 \<le> i \<Longrightarrow> 0 < capacity q \<Longrightarrow> slot q (i + capacity q) = slot q i"
  by (simp add: slot_nonneg)

lemma capacity_store_state [simp]: "capacity (store_state q k s) = capacity q"
  by (simp add: store_state_def capacity_def)

lemma slot_store_state [simp]: "slot (store_state q k s) i = slot q i"
  by (simp add: slot_def)

lemma head_store_state [simp]: "head (store_state q k s) = head q"
  by (simp add: store_state_def)

lemma tail_store_state [simp]: "tail (store_state q k s) = tail q"
  by (simp add: store_state_def)

lemma length_store_state [simp]: "length (messages (store_state q k s)) = length (messages q)"
  by (simp add: store_state_def)


lemma values_store_state [simp]:
  "map value_msg (messages (store_state q k s)) = map value_msg (messages q)"
  by (cases "k < length (messages q)")
    (auto simp: store_state_def nth_list_update list_update_beyond intro!: nth_equalityI)

lemma other_store_state: "j \<noteq> k \<Longrightarrow> messages (store_state q k s) ! j = messages q ! j"
  by (simp add: store_state_def)

lemma write_start_values:
  "write_start fuel q = Some (Inr (i, q')) \<Longrightarrow> map value_msg (messages q') = map value_msg (messages q)"
  by (auto simp: write_start_def fetch_add_def Let_def split: sum.splits option.splits)

lemma read_start_values:
  "read_start fuel q = Some (Inr (i, q')) \<Longrightarrow> map value_msg (messages q') = map value_msg (messages q)"
  by (auto simp: read_start_def fetch_add_def Let_def split: sum.splits option.splits)

text \<open>
  C9. For an index that addresses slot \<open>k\<close>, \<^verbatim>\<open>write_finish\<close> and \<^verbatim>\<open>read_finish\<close> return,
  leave both counters, the length of the array and every other slot as they were, leave
  the value of slot \<open>k\<close> as it was, and set its state to Ready and Empty. After
  \<^verbatim>\<open>read_finish\<close> the value is still what \<^verbatim>\<open>operator[]\<close> reads at that index; no start
  or finish operation changes it, and an assignment through \<^verbatim>\<open>operator[]\<close> changes it only
  when its index maps to slot \<open>k\<close>.
\<close>

theorem finish_frame:
  assumes "slot q idx = Inr k"
  shows "\<exists>qw qr. write_finish q idx = Inr qw \<and> read_finish q idx = Inr qr
    \<and> head qw = head q \<and> tail qw = tail q \<and> head qr = head q \<and> tail qr = tail q
    \<and> length (messages qw) = length (messages q) \<and> length (messages qr) = length (messages q)
    \<and> (\<forall>j. j \<noteq> k \<longrightarrow> messages qw ! j = messages q ! j \<and> messages qr ! j = messages q ! j)
    \<and> value_msg (messages qw ! k) = value_msg (messages q ! k)
    \<and> value_msg (messages qr ! k) = value_msg (messages q ! k)
    \<and> state_msg (messages qw ! k) = Ready \<and> state_msg (messages qr ! k) = Empty
    \<and> subscript qr idx = subscript q idx
    \<and> (\<forall>fuel i q'. write_start fuel qr = Some (Inr (i, q')) \<or> read_start fuel qr = Some (Inr (i, q'))
          \<or> write_finish qr i = Inr q' \<or> read_finish qr i = Inr q'
          \<longrightarrow> value_msg (messages q' ! k) = value_msg (messages q ! k))
    \<and> (\<forall>i v q'. subscript_assign qr i v = Inr q' \<longrightarrow> slot qr i \<noteq> Inr k
          \<longrightarrow> value_msg (messages q' ! k) = value_msg (messages q ! k))"
proof -
  have k: "k < length (messages q)"
    using assms by (rule slot_less)
  let ?qw = "store_state q k Ready" and ?qr = "store_state q k Empty"
  have vals: "map value_msg (messages ?qr) = map value_msg (messages q)"
    by simp
  have at_k: "value_msg (messages q1 ! k) = value_msg (messages q ! k)"
    if "map value_msg (messages q1) = map value_msg (messages q)" for q1 :: "'a wfree_mpsc_message_queue"
  proof -
    have "length (messages q1) = length (messages q)"
      using that by (metis length_map)
    then show ?thesis
      using that k by (metis nth_map)
  qed
  have ops: "value_msg (messages q' ! k) = value_msg (messages q ! k)"
    if "write_start fuel ?qr = Some (Inr (i, q')) \<or> read_start fuel ?qr = Some (Inr (i, q'))
          \<or> write_finish ?qr i = Inr q' \<or> read_finish ?qr i = Inr q'" for fuel i q'
  proof -
    have "map value_msg (messages q') = map value_msg (messages ?qr)"
      using that
      by (auto simp: write_start_values read_start_values write_finish_def read_finish_def
          split: sum.splits)
    then show ?thesis
      by (intro at_k) (simp only: vals)
  qed
  have assign: "value_msg (messages q' ! k) = value_msg (messages q ! k)"
    if sa: "subscript_assign ?qr i v = Inr q'" and ns: "slot ?qr i \<noteq> Inr k" for i v q'
  proof -
    obtain j where j: "slot ?qr i = Inr j"
      and q': "q' = ?qr\<lparr>messages := (messages ?qr)[j := (messages ?qr ! j)\<lparr>value_msg := v\<rparr>]\<rparr>"
      using sa by (auto simp: subscript_assign_def split: sum.splits)
    have "j \<noteq> k"
      using j ns by auto
    then show ?thesis
      using k by (simp add: q' store_state_def)
  qed
  have "write_finish q idx = Inr ?qw" "read_finish q idx = Inr ?qr"
    using assms by (simp_all add: write_finish_def read_finish_def)
  moreover have "\<forall>j. j \<noteq> k \<longrightarrow> messages ?qw ! j = messages q ! j \<and> messages ?qr ! j = messages q ! j"
    by (simp add: other_store_state)
  moreover have "value_msg (messages ?qw ! k) = value_msg (messages q ! k)"
    "value_msg (messages ?qr ! k) = value_msg (messages q ! k)"
    "state_msg (messages ?qw ! k) = Ready" "state_msg (messages ?qr ! k) = Empty"
    using k by (simp_all add: store_state_def)
  moreover have "subscript ?qr idx = subscript q idx"
    using assms k by (simp add: subscript_def) (simp add: store_state_def)
  moreover note ops assign
  ultimately show ?thesis
    by (intro exI [of _ ?qw] exI [of _ ?qr] conjI allI impI)
      (simp_all only: head_store_state tail_store_state length_store_state, blast+)
qed

theorem finish_frame_witness:
  "slot (new_queue 33 (7::nat)) 34 = Inr 1
   \<and> (\<exists>qw qr. write_finish (new_queue 33 (7::nat)) 34 = Inr qw
        \<and> read_finish (new_queue 33 (7::nat)) 34 = Inr qr
        \<and> head qw = 0 \<and> tail qr = 0
        \<and> state_msg (messages qw ! 1) = Ready \<and> state_msg (messages qr ! 1) = Empty
        \<and> value_msg (messages qw ! 1) = 7 \<and> value_msg (messages qr ! 1) = 7)"
proof -
  have h: "slot (new_queue 33 (7::nat)) 34 = Inr 1"
    by (simp add: slot_nonneg capacity_def new_queue_def)
  have v: "value_msg (messages (new_queue 33 (7::nat)) ! 1) = 7"
    by (simp add: new_queue_def)
  obtain qw qr where "write_finish (new_queue 33 (7::nat)) 34 = Inr qw"
    "read_finish (new_queue 33 (7::nat)) 34 = Inr qr"
    "head qw = head (new_queue 33 (7::nat))" "tail qr = tail (new_queue 33 (7::nat))"
    "state_msg (messages qw ! 1) = Ready" "state_msg (messages qr ! 1) = Empty"
    "value_msg (messages qw ! 1) = value_msg (messages (new_queue 33 (7::nat)) ! 1)"
    "value_msg (messages qr ! 1) = value_msg (messages (new_queue 33 (7::nat)) ! 1)"
    using finish_frame [OF h] by blast
  then show ?thesis
    using h v by (simp add: new_queue_def)
qed

subsection \<open>Dereferencing a scoped operation\<close>

lemma dereference_null:
  "map_of (operations m) a = Some obj \<Longrightarrow> parent obj = None \<Longrightarrow>
   dereference a m = Inl AssertionFailed"
  by (simp add: dereference_def)

lemma dereference_default: "dereference a (construct_default a m) = Inl AssertionFailed"
  by (simp add: dereference_def construct_default_def update_conv')

lemma dereference_moved_from:
  assumes "move_construct a b m = Inr m'" "a \<noteq> b"
  shows "dereference b m' = Inl AssertionFailed"
  using assms
  by (auto simp: move_construct_def dereference_def Let_def update_conv'
      split: option.splits)

text \<open>
  C10 (amended). \<^verbatim>\<open>operator*\<close> on an operation whose parent is null fails the
  assertion; so it does on a default-constructed operation and on the source of a move
  construction. On an operation with a parent and an index that is not negative it
  returns the reference to the value of slot \<open>index mod capacity\<close> of the parent queue,
  and the operation with the index plus the capacity gets the same reference.
\<close>

theorem dereference_operation:
  assumes "map_of (operations m) a = Some obj"
  shows "(parent obj = None \<longrightarrow> dereference a m = Inl AssertionFailed)
    \<and> dereference a (construct_default a m) = Inl AssertionFailed
    \<and> (\<forall>b m'. move_construct b a m = Inr m' \<longrightarrow> b \<noteq> a \<longrightarrow>
          dereference a m' = Inl AssertionFailed)
    \<and> (\<forall>p q. parent obj = Some p \<longrightarrow> map_of (queues m) p = Some q \<longrightarrow>
          0 < capacity q \<longrightarrow> 0 \<le> index obj \<longrightarrow>
            dereference a m = Inr (p, nat (index obj mod capacity q))
          \<and> dereference a
               (m\<lparr>operations :=
                    AList.update a (obj\<lparr>index := index obj + capacity q\<rparr>) (operations m)\<rparr>)
              = dereference a m)"
proof (intro conjI allI impI)
  show "dereference a m = Inl AssertionFailed" if "parent obj = None"
    using assms that by (rule dereference_null)
  show "dereference a (construct_default a m) = Inl AssertionFailed"
    by (rule dereference_default)
  show "dereference a m' = Inl AssertionFailed" if "move_construct b a m = Inr m'" "b \<noteq> a" for b m'
    using that by (rule dereference_moved_from)
next
  fix p q
  assume p: "parent obj = Some p" and q: "map_of (queues m) p = Some q"
    and n: "0 < capacity q" and i: "0 \<le> index obj"
  show here: "dereference a m = Inr (p, nat (index obj mod capacity q))"
    using assms p q n i by (simp add: dereference_def slot_nonneg)
  have "0 \<le> index obj + capacity q"
    using n i by simp
  then have "dereference a
      (m\<lparr>operations := AList.update a (obj\<lparr>index := index obj + capacity q\<rparr>) (operations m)\<rparr>)
      = Inr (p, nat ((index obj + capacity q) mod capacity q))"
    using p q n by (simp add: dereference_def slot_nonneg update_conv')
  then show "dereference a
      (m\<lparr>operations := AList.update a (obj\<lparr>index := index obj + capacity q\<rparr>) (operations m)\<rparr>)
      = dereference a m"
    using here by simp
qed

theorem dereference_operation_witness:
  "dereference 0 example_memory = Inr (0, 32)
   \<and> dereference 0 (example_memory\<lparr>operations :=
        AList.update 0 \<lparr>parent = Some 0, index = 65\<rparr> (operations example_memory)\<rparr>) = Inr (0, 32)"
  using dereference_operation [of example_memory 0 "\<lparr>parent = Some 0, index = 32\<rparr>"]
  by (simp add: example_memory_def new_queue_def capacity_def)

text \<open>
  The claim as stated speaks of every operation with a parent. With index \<open>-1\<close> the
  remainder \<^verbatim>\<open>index % capacity\<close> is \<open>-1\<close>, outside the array, while the index that
  differs from it by the capacity, 32, names slot 32.
\<close>

theorem dereference_negative_index:
  "dereference 1 example_memory = Inl OutOfBounds \<and> dereference 0 example_memory = Inr (0, 32)
   \<and> map_of (operations example_memory) 1 = Some \<lparr>parent = Some 0, index = -1\<rparr>
   \<and> map_of (operations example_memory) 0 = Some \<lparr>parent = Some 0, index = -1 + 33\<rparr>
   \<and> map_of (queues example_memory) 0 = Some (new_queue 33 0)
   \<and> capacity (new_queue 33 (0::nat)) = 33"
  by (simp add: example_memory_def dereference_def slot_def new_queue_def capacity_def
      smod_int_alt_def)

subsection \<open>Slots, states and counters under the operations\<close>

lemma slot_head_update [simp]: "slot (q\<lparr>head := h\<rparr>) i = slot q i"
  by (simp add: slot_def capacity_def)

lemma slot_tail_update [simp]: "slot (q\<lparr>tail := t\<rparr>) i = slot q i"
  by (simp add: slot_def capacity_def)

lemma load_state_head_update [simp]: "load_state (q\<lparr>head := h\<rparr>) k = load_state q k"
  by (simp add: load_state_def)

lemma load_state_tail_update [simp]: "load_state (q\<lparr>tail := t\<rparr>) k = load_state q k"
  by (simp add: load_state_def)





lemma write_finish_store:
  "write_finish q i = Inr q' \<Longrightarrow> \<exists>k. slot q i = Inr k \<and> q' = store_state q k Ready"
  by (auto simp: write_finish_def split: sum.splits)

lemma read_finish_store:
  "read_finish q i = Inr q' \<Longrightarrow> \<exists>k. slot q i = Inr k \<and> q' = store_state q k Empty"
  by (auto simp: read_finish_def split: sum.splits)


subsection \<open>The lifetime of scoped operations\<close>

lemma owed_all_update_fresh:
  "map_of xs a = None \<Longrightarrow> owed_all (AList.update a new xs) = owed_all xs + owed new"
  by (induction xs) (auto simp: owed_all_def)

lemma owed_all_update:
  "distinct (map fst xs) \<Longrightarrow> map_of xs a = Some old \<Longrightarrow>
   owed_all (AList.update a new xs) + owed old = owed_all xs + owed new"
proof (induction xs)
  case Nil
  then show ?case by simp
next
  case (Cons x xs)
  then show ?case
    by (cases x) (auto simp: owed_all_def)
qed

lemma owed_all_delete:
  "distinct (map fst xs) \<Longrightarrow> map_of xs a = Some old \<Longrightarrow>
   owed_all (AList.delete a xs) + owed old = owed_all xs"
proof (induction xs)
  case Nil
  then show ?case by simp
next
  case (Cons x xs)
  then show ?case
    by (cases x) (auto simp: owed_all_def AList.delete_id map_of_eq_None_iff)
qed

lemma pending_owed_all: "pending m = owed_all (operations m)"
  by (simp add: pending_def owed_all_def)

lemma construct_default_balanced:
  "balanced m \<Longrightarrow> fresh a m \<Longrightarrow> balanced (construct_default a m)"
  by (simp add: balanced_def fresh_def construct_default_def pending_owed_all
      owed_all_update_fresh distinct_update owed_def)

lemma construct_balanced:
  "balanced m \<Longrightarrow> fresh a m \<Longrightarrow> balanced (construct a p i m)"
  by (simp add: balanced_def fresh_def construct_def pending_owed_all
      owed_all_update_fresh distinct_update owed_def)

lemma write_or_read_balanced:
  assumes "balanced m" "fresh a m" "write_or_read w fuel p a m = Some (Inr m')"
  shows "balanced m'"
proof -
  obtain i qs where m': "m' = construct a p i (m\<lparr>queues := qs\<rparr>)"
    using assms(3)
    by (auto simp: write_or_read_def split: option.splits sum.splits)
  have "balanced (m\<lparr>queues := qs\<rparr>)" "fresh a (m\<lparr>queues := qs\<rparr>)"
    using assms(1,2) by (simp_all add: balanced_def fresh_def pending_def)
  then show ?thesis
    unfolding m' by (rule construct_balanced)
qed

lemma move_construct_balanced:
  assumes "balanced m" "fresh a m" "move_construct a b m = Inr m'"
  shows "balanced m'"
proof -
  obtain obj where obj: "map_of (operations m) b = Some obj"
    using assms(3) by (auto simp: move_construct_def split: option.splits)
  have ab: "a \<noteq> b"
    using assms(2) obj by (auto simp: fresh_def)
  let ?new = "\<lparr>parent = parent obj, index = index obj\<rparr>"
  let ?xs = "AList.update a ?new (operations m)"
  have m': "m' = m\<lparr>operations := AList.update b (obj\<lparr>parent := None\<rparr>) ?xs\<rparr>"
    using assms(3) obj ab by (simp add: move_construct_def Let_def)
  have d: "distinct (map fst (operations m))"
    using assms(1) by (simp add: balanced_def)
  have 1: "owed_all ?xs = owed_all (operations m) + owed ?new"
    using assms(2) by (simp add: owed_all_update_fresh fresh_def)
  have "map_of ?xs b = Some obj"
    using obj ab by (simp add: update_conv')
  then have 2: "owed_all (AList.update b (obj\<lparr>parent := None\<rparr>) ?xs) + owed obj
      = owed_all ?xs + owed (obj\<lparr>parent := None\<rparr>)"
    using d by (intro owed_all_update) (simp_all add: distinct_update)
  have "owed ?new = owed obj" "owed (obj\<lparr>parent := None\<rparr>) = {#}"
    by (simp_all add: owed_def split: option.splits)
  then have "owed_all (AList.update b (obj\<lparr>parent := None\<rparr>) ?xs) = owed_all (operations m)"
    using 1 2 by simp
  then show ?thesis
    using assms(1) d by (simp add: m' balanced_def pending_owed_all distinct_update)
qed

lemma move_assign_no_reference: "snd (move_assign a b m) \<noteq> Inr r"
  by (simp add: move_assign_def split: option.splits)

lemma destructor_balanced:
  assumes "balanced m" "destructor w a m = Inr m'"
  shows "balanced m'"
proof -
  obtain obj where obj: "map_of (operations m) a = Some obj"
    using assms(2) by (auto simp: destructor_def split: option.splits)
  have d: "distinct (map fst (operations m))"
    using assms(1) by (simp add: balanced_def)
  have del: "owed_all (AList.delete a (operations m)) + owed obj = owed_all (operations m)"
    using d obj by (rule owed_all_delete)
  have ops: "operations m' = AList.delete a (operations m)"
    and h: "handed_out m' = handed_out m"
    and f: "mset (finished m') = mset (finished m) + owed obj"
    using assms(2) obj
    by (auto simp: destructor_def owed_def split: option.splits sum.splits if_splits)
  show ?thesis
    using assms(1) d del
    by (simp add: balanced_def pending_owed_all ops h f distinct_delete)
      (metis add.commute)
qed

lemma statement_exec_balanced:
  assumes "balanced m" "statement_exec w c m = Some (Inr m')"
  shows "balanced m'"
proof (cases c)
  case (Declare_default a)
  then show ?thesis
    using assms by (auto split: if_splits intro: construct_default_balanced)
next
  case (Declare_from_queue a p fuel)
  then show ?thesis
    using assms by (auto split: if_splits intro: write_or_read_balanced)
next
  case (Declare_moved a b)
  then show ?thesis
    using assms by (auto split: if_splits intro: move_construct_balanced)
next
  case (Assign_moved a b)
  then show ?thesis
    using assms(2) move_assign_no_reference [of a b m]
    by (cases "move_assign a b m") (auto split: sum.splits)
next
  case (End_of_lifetime a)
  then show ?thesis
    using assms by (auto intro: destructor_balanced)
qed

lemma program_exec_balanced:
  "balanced m \<Longrightarrow> program_exec w cs m = Some (Inr m') \<Longrightarrow> balanced m'"
proof (induction cs arbitrary: m)
  case Nil
  then show ?case by simp
next
  case (Cons c cs)
  then show ?case
    by (auto split: option.splits sum.splits dest: statement_exec_balanced)
qed

lemma destructor_finished:
  assumes "map_of (operations m) a = Some obj" "destructor w a m = Inr m'"
  shows "finished m' = finished m @ (case parent obj of None \<Rightarrow> [] | Some p \<Rightarrow> [(p, index obj)])"
proof (cases "parent obj")
  case None
  then show ?thesis
    using assms by (auto simp: destructor_def)
next
  case (Some p)
  then obtain q where "map_of (queues m) p = Some q"
    using assms by (auto simp: destructor_def split: option.splits)
  then show ?thesis
    using assms Some by (cases w) (auto simp: destructor_def split: sum.splits)
qed

text \<open>
  What the destructor does to the queue: with a parent, the finish operation of the
  instance on the slot of the index, \<^verbatim>\<open>write_finish\<close> for a write operation and
  \<^verbatim>\<open>read_finish\<close> for a read operation; without a parent, nothing.
\<close>

lemma destructor_queue:
  assumes "map_of (operations m) a = Some obj" "parent obj = Some p"
    and "map_of (queues m) p = Some q" "destructor w a m = Inr m'"
  shows "\<exists>k. slot q (index obj) = Inr k
    \<and> map_of (queues m') p = Some (store_state q k (if w then Ready else Empty))
    \<and> (if w then write_finish q (index obj) else read_finish q (index obj))
        = Inr (store_state q k (if w then Ready else Empty))"
proof (cases w)
  case True
  then obtain q' where q': "write_finish q (index obj) = Inr q'"
    and m': "m' = m\<lparr>queues := AList.update p q' (queues m),
        operations := AList.delete a (operations m),
        finished := finished m @ [(p, index obj)]\<rparr>"
    using assms by (auto simp: destructor_def split: sum.splits)
  from write_finish_store [OF q'] show ?thesis
    using True q' by (auto simp: m' update_conv')
next
  case False
  then obtain q' where q': "read_finish q (index obj) = Inr q'"
    and m': "m' = m\<lparr>queues := AList.update p q' (queues m),
        operations := AList.delete a (operations m),
        finished := finished m @ [(p, index obj)]\<rparr>"
    using assms by (auto simp: destructor_def split: sum.splits)
  from read_finish_store [OF q'] show ?thesis
    using False q' by (auto simp: m' update_conv')
qed

lemma destructor_no_parent:
  assumes "map_of (operations m) a = Some obj" "parent obj = None" "destructor w a m = Inr m'"
  shows "queues m' = queues m"
  using assms by (auto simp: destructor_def)

text \<open>
  What \<^verbatim>\<open>write()\<close> and \<^verbatim>\<open>read()\<close> hand out: the queue after \<^verbatim>\<open>write_start\<close> or
  \<^verbatim>\<open>read_start\<close>, and an object with the queue as parent and the index that call returned.
\<close>

lemma write_or_read_start:
  assumes "map_of (queues m) p = Some q" "write_or_read w fuel p a m = Some (Inr m')"
  shows "\<exists>i q'. (if w then write_start fuel q else read_start fuel q) = Some (Inr (i, q'))
    \<and> map_of (queues m') p = Some q'
    \<and> map_of (operations m') a = Some \<lparr>parent = Some p, index = i\<rparr>
    \<and> handed_out m' = handed_out m @ [(p, i)] \<and> finished m' = finished m"
  using assms
  by (auto simp: write_or_read_def construct_def update_conv' split: option.splits sum.splits)

lemma move_construct_source:
  assumes "fresh a m" "move_construct a b m = Inr m'"
  shows "map_option parent (map_of (operations m') b) = Some None
    \<and> map_of (operations m') a = map_of (operations m) b
    \<and> finished m' = finished m \<and> queues m' = queues m"
proof -
  obtain obj where obj: "map_of (operations m) b = Some obj"
    using assms(2) by (auto simp: move_construct_def split: option.splits)
  have ab: "a \<noteq> b"
    using assms(1) obj by (auto simp: fresh_def)
  have "m' = m\<lparr>operations := AList.update b (obj\<lparr>parent := None\<rparr>)
      (AList.update a \<lparr>parent = parent obj, index = index obj\<rparr> (operations m))\<rparr>"
    using assms(2) obj ab by (simp add: move_construct_def Let_def)
  then show ?thesis
    using obj ab by (simp add: update_conv')
qed

lemma destructor_default:
  assumes "destructor w a (construct_default a m) = Inr m'"
  shows "finished m' = finished m \<and> queues m' = queues m"
proof -
  have *: "map_of (operations (construct_default a m)) a = Some \<lparr>parent = None, index = 0\<rparr>"
    by (simp add: construct_default_def update_conv')
  from destructor_finished [OF * assms] destructor_no_parent [OF * _ assms] show ?thesis
    by (simp add: construct_default_def)
qed

text \<open>
  Programs that run to their end. Take any program of declarations (default, from
  \<^verbatim>\<open>write()\<close> or \<^verbatim>\<open>read()\<close>, by move construction) and ends of lifetimes that runs to
  its end from a store without operation objects. Then the pairs handed out by
  \<^verbatim>\<open>write()\<close> or \<^verbatim>\<open>read()\<close> are, with multiplicity, the pairs already finished plus
  those the live objects owe; once no object is left, each has been finished exactly
  once. The destructor of an object with a parent applies the finish operation of its
  instance to the parent at its index, the destructor of one without a parent calls
  nothing; move construction leaves the source without parent and gives the new object
  its members; the destructor of a default-constructed object calls nothing.
\<close>

lemma finish_exactly_once:
  assumes "program_exec w cs (new_memory qs) = Some (Inr m)"
  shows "mset (handed_out m) = mset (finished m) + pending m
    \<and> (operations m = [] \<longrightarrow> mset (finished m) = mset (handed_out m))
    \<and> (\<forall>a obj m'. map_of (operations m) a = Some obj \<longrightarrow> destructor w a m = Inr m' \<longrightarrow>
          finished m' = finished m @ (case parent obj of None \<Rightarrow> [] | Some p \<Rightarrow> [(p, index obj)]))
    \<and> (\<forall>a obj p q m'. map_of (operations m) a = Some obj \<longrightarrow> parent obj = Some p \<longrightarrow>
          map_of (queues m) p = Some q \<longrightarrow> destructor w a m = Inr m' \<longrightarrow>
          (\<exists>k. slot q (index obj) = Inr k
             \<and> map_of (queues m') p = Some (store_state q k (if w then Ready else Empty))
             \<and> (if w then write_finish q (index obj) else read_finish q (index obj))
                 = Inr (store_state q k (if w then Ready else Empty))))
    \<and> (\<forall>a obj m'. map_of (operations m) a = Some obj \<longrightarrow> parent obj = None \<longrightarrow>
          destructor w a m = Inr m' \<longrightarrow> queues m' = queues m)
    \<and> (\<forall>a p q fuel m'. map_of (queues m) p = Some q \<longrightarrow>
          write_or_read w fuel p a m = Some (Inr m') \<longrightarrow>
          (\<exists>i q'. (if w then write_start fuel q else read_start fuel q) = Some (Inr (i, q'))
             \<and> map_of (queues m') p = Some q'
             \<and> map_of (operations m') a = Some \<lparr>parent = Some p, index = i\<rparr>
             \<and> handed_out m' = handed_out m @ [(p, i)] \<and> finished m' = finished m))
    \<and> (\<forall>a b m'. fresh a m \<longrightarrow> move_construct a b m = Inr m' \<longrightarrow>
          map_option parent (map_of (operations m') b) = Some None
          \<and> map_of (operations m') a = map_of (operations m) b
          \<and> finished m' = finished m \<and> queues m' = queues m)
    \<and> (\<forall>a m'. destructor w a (construct_default a m) = Inr m' \<longrightarrow>
          finished m' = finished m \<and> queues m' = queues m)"
proof -
  have "balanced (new_memory qs)"
    by (simp add: balanced_def new_memory_def pending_def)
  then have "balanced m"
    using assms by (rule program_exec_balanced)
  then have *: "mset (handed_out m) = mset (finished m) + pending m"
    by (simp add: balanced_def)
  then have **: "operations m = [] \<longrightarrow> mset (finished m) = mset (handed_out m)"
    by (simp add: pending_def)
  show ?thesis
    apply (intro conjI allI impI)
    subgoal by (rule *)
    subgoal using ** by simp
    subgoal by (rule destructor_finished)
    subgoal by (rule destructor_queue)
    subgoal by (rule destructor_no_parent)
    subgoal by (rule write_or_read_start)
    subgoal using move_construct_source by blast
    subgoal using move_construct_source by blast
    subgoal using move_construct_source by blast
    subgoal using move_construct_source by blast
    subgoal using destructor_default by blast
    subgoal using destructor_default by blast
    done
qed

lemma example_program_result:
  "(case program_exec True example_program (new_memory [(5, new_queue 33 (0::nat))]) of
      Some (Inr m) \<Rightarrow>
        operations m = [] \<and> handed_out m = [(5, 0)] \<and> finished m = [(5, 0)]
        \<and> map_option (\<lambda>q. load_state q 0) (map_of (queues m) 5) = Some Ready
    | _ \<Rightarrow> False)"
  by code_simp

lemma assigning_program_result:
  "program_exec True assigning_program (new_memory [(5, new_queue 33 (0::nat))])
     = Some (Inl NoReturnValue)"
  by code_simp

lemma assigning_program_prefix:
  "(case program_exec True (take 2 assigning_program) (new_memory [(5, new_queue 33 (0::nat))]) of
      Some (Inr m) \<Rightarrow>
        operations m = [(0, \<lparr>parent = Some 5, index = 0\<rparr>), (1, \<lparr>parent = None, index = 0\<rparr>)]
        \<and> handed_out m = [(5, 0)] \<and> finished m = []
        \<and> snd (move_assign 1 0 m) = Inl NoReturnValue
        \<and> operations (fst (move_assign 1 0 m))
            = [(0, \<lparr>parent = None, index = 0\<rparr>), (1, \<lparr>parent = Some 5, index = 0\<rparr>)]
        \<and> move_assign 1 1 m = (m, Inl NoReturnValue)
    | _ \<Rightarrow> False)"
  by code_simp

text \<open>
  C8. The finish operation is not executed exactly once over a lifetime that includes a
  move assignment. On a queue of 33 slots, a program declares an operation from
  \<^verbatim>\<open>write()\<close> and a default-constructed one, and move-assigns the first to the second.
  The assignment swaps the members of the two objects and then yields no reference, on
  the path of two different objects as on the path of an object assigned to itself; the
  program ends there, with index 0 handed out and never finished. The same declarations
  with a move construction in place of the assignment run to their end with
  \<^verbatim>\<open>write_finish\<close> executed once for index 0, whose slot is Ready.
\<close>

theorem move_assignment_no_return:
  "program_exec True assigning_program (new_memory [(5, new_queue 33 (0::nat))])
     = Some (Inl NoReturnValue)
   \<and> (case program_exec True (take 2 assigning_program) (new_memory [(5, new_queue 33 (0::nat))]) of
        Some (Inr m) \<Rightarrow>
          operations m = [(0, \<lparr>parent = Some 5, index = 0\<rparr>), (1, \<lparr>parent = None, index = 0\<rparr>)]
          \<and> handed_out m = [(5, 0)] \<and> finished m = []
          \<and> snd (move_assign 1 0 m) = Inl NoReturnValue
          \<and> operations (fst (move_assign 1 0 m))
              = [(0, \<lparr>parent = None, index = 0\<rparr>), (1, \<lparr>parent = Some 5, index = 0\<rparr>)]
          \<and> move_assign 1 1 m = (m, Inl NoReturnValue)
      | _ \<Rightarrow> False)
   \<and> (case program_exec True example_program (new_memory [(5, new_queue 33 (0::nat))]) of
        Some (Inr m) \<Rightarrow>
          operations m = [] \<and> handed_out m = [(5, 0)] \<and> finished m = [(5, 0)]
          \<and> map_option (\<lambda>q. load_state q 0) (map_of (queues m) 5) = Some Ready
      | _ \<Rightarrow> False)"
  using assigning_program_result assigning_program_prefix example_program_result
  by (intro conjI)

subsection \<open>The step function and the step relation\<close>




lemma run_append:
  "run d (as @ bs) s = (case run d as s of None \<Rightarrow> None | Some s' \<Rightarrow> run d bs s')"
  by (induction as arbitrary: s) (auto split: option.splits)


subsection \<open>The cycle of a slot\<close>












































subsection \<open>The counters\<close>



























subsection \<open>The timer awaitable\<close>












subsection \<open>Starting a subsystem\<close>

lemma successes_Suc:
  "successes init_fn (s\<lparr>init_calls := Suc (init_calls s)\<rparr>)
     = successes init_fn s + (if init_fn (init_calls s) then 1 else 0)"
  by (simp add: successes_def)

lemma successes_state_update [simp]: "successes init_fn (s\<lparr>state := x\<rparr>) = successes init_fn s"
  by (simp add: successes_def)

lemma successes_caller_update [simp]: "successes init_fn (s\<lparr>caller := x\<rparr>) = successes init_fn s"
  by (simp add: successes_def)











end
